theory Spec2Isabelle
  imports Complex_Main
begin

section \<open>The batch-normalisation notebook\<close>

text \<open>
  The repository is one Jupyter notebook: thirteen code cells, run top to bottom, each a
  few calls into numpy, scikit-learn, Keras, pandas and matplotlib. The embedding keeps
  that shape. A cell is a function from the notebook's namespace (its global variables)
  to either an exception or the updated namespace; the notebook is the list of its cells
  and running it is running the cells in order until one raises.

  Numbers: numpy's float64 values are idealised as \<open>real\<close>. Rounding is not
  modelled, and where numpy would produce \<open>nan\<close> (a division whose divisor is zero) the
  model leaves the real numbers through the error value \<open>UndefinedDivision\<close>.

  Libraries: what the notebook cannot decide (the dataset that is loaded, the permutation
  the splitter draws, the training loop, whether an import succeeds) is a field of the
  record \<open>library\<close>, and every theorem holds for all libraries. The small deterministic
  parts of the libraries the notebook relies on (mean, standard deviation, index
  selection, the sizes of the split, the validation hold-out, DataFrame construction and
  lookup, the length check of a plotted line) are written out from their documentation.
\<close>

subsection \<open>Exceptions\<close>

datatype error =
    UndefinedDivision
  | Raised string

definition bind :: "error + 'a \<Rightarrow> ('a \<Rightarrow> error + 'b) \<Rightarrow> error + 'b" where
  "bind r f = (case r of Inl e \<Rightarrow> Inl e | Inr x \<Rightarrow> f x)"

text \<open>Reading a global variable that no cell has assigned yet raises NameError.\<close>

definition lookup :: "'a option \<Rightarrow> error + 'a" where
  "lookup v = (case v of None \<Rightarrow> Inl (Raised ''NameError'') | Some x \<Rightarrow> Inr x)"

subsection \<open>Arrays\<close>

text \<open>
  A two-dimensional float array: \<open>shape = (length rows, ncols)\<close>. The target vector is a
  one-dimensional array, a \<open>real list\<close>. \<open>take_idx a idx\<close> is numpy's \<open>a[idx]\<close> for an
  index array.
\<close>

record ndarray2 =
  ncols :: nat
  rows :: "real list list"

definition shape :: "ndarray2 \<Rightarrow> nat \<times> nat" where
  "shape a = (length (rows a), ncols a)"

definition take_idx :: "'a list \<Rightarrow> nat list \<Rightarrow> 'a list" where
  "take_idx xs idx = map (\<lambda>i. xs ! i) idx"

definition take_rows :: "ndarray2 \<Rightarrow> nat list \<Rightarrow> ndarray2" where
  "take_rows a idx = a\<lparr>rows := take_idx (rows a) idx\<rparr>"

definition arange :: "nat \<Rightarrow> nat list" where
  "arange n = [0..<n]"

text \<open>
  \<open>targets.mean(axis=0)\<close> and \<open>targets.std()\<close>: the sum over the count, and the square
  root of the mean of the squared absolute deviations (population standard deviation,
  numpy's default \<open>ddof=0\<close>). On an empty array the count is zero.
\<close>

definition mean :: "real list \<Rightarrow> error + real" where
  "mean xs = (if length xs = 0 then Inl UndefinedDivision
              else Inr (sum_list xs / real (length xs)))"

definition std :: "real list \<Rightarrow> error + real" where
  "std xs = bind (mean xs) (\<lambda>m.
            bind (mean (map (\<lambda>x. \<bar>x - m\<bar> ^ 2) xs)) (\<lambda>v.
            Inr (sqrt v)))"

text \<open>
  Cell 4, \<^verbatim>\<open>targets = (targets - targets.mean(axis=0)) / (targets.std())\<close>. The source
  has no guard on the divisor; the guard here is where the model stops being real-valued.
\<close>

definition normalise_targets :: "real list \<Rightarrow> error + real list" where
  "normalise_targets ts =
     bind (mean ts) (\<lambda>m.
     bind (std ts) (\<lambda>s.
     if s = 0 then Inl UndefinedDivision
     else Inr (map (\<lambda>t. (t - m) / s) ts)))"

subsection \<open>The dataset\<close>

text \<open>The object \<open>load_diabetes()\<close> returns, read at its keys \<open>'data'\<close> and \<open>'target'\<close>.\<close>

record bunch =
  bunch_data :: ndarray2
  bunch_target :: "real list"

subsection \<open>Keras layers and models\<close>

datatype initializer =
    Zeros
  | Ones
  | RandomNormal real real
  | Constant real

record batchnorm =
  momentum :: real
  epsilon :: real
  axis :: int
  beta_initializer :: initializer
  gamma_initializer :: initializer

datatype layer =
    Dense nat "nat list option" "string option"
  | BatchNormalization batchnorm
  | Dropout real

text \<open>
  A keyword argument that is left out takes its default. The defaults of
  \<open>BatchNormalization\<close> are the ones the notebook's own text states: momentum 0.99,
  epsilon 0.001, axis -1, \<open>beta\<close> all zeros, \<open>gamma\<close> all ones.
\<close>

definition keyword :: "'a \<Rightarrow> 'a option \<Rightarrow> 'a" where
  "keyword dflt v = (case v of None \<Rightarrow> dflt | Some x \<Rightarrow> x)"

definition BatchNormalization_call ::
  "real option \<Rightarrow> real option \<Rightarrow> int option \<Rightarrow> initializer option \<Rightarrow> initializer option \<Rightarrow> layer"
where
  "BatchNormalization_call mom eps ax beta gamma =
     BatchNormalization
       \<lparr>momentum = keyword (99 / 100) mom,
        epsilon = keyword (1 / 1000) eps,
        axis = keyword (- 1) ax,
        beta_initializer = keyword Zeros beta,
        gamma_initializer = keyword Ones gamma\<rparr>"

record compile_args =
  optimizer :: string
  loss :: string
  metrics :: "string list"

record keras_model =
  layers :: "layer list"
  compiled :: "compile_args option"

definition Sequential :: "layer list \<Rightarrow> keras_model" where
  "Sequential ls = \<lparr>layers = ls, compiled = None\<rparr>"

definition add :: "keras_model \<Rightarrow> layer \<Rightarrow> keras_model" where
  "add m l = m\<lparr>layers := layers m @ [l]\<rparr>"

definition compile :: "keras_model \<Rightarrow> string \<Rightarrow> string \<Rightarrow> string list \<Rightarrow> keras_model" where
  "compile m opt l ms = m\<lparr>compiled := Some \<lparr>optimizer = opt, loss = l, metrics = ms\<rparr>\<rparr>"

text \<open>\<open>history.history\<close>: a dictionary from the name of a series to its values, one per epoch.\<close>

type_synonym history_dict = "(string \<times> real list) list"

subsection \<open>What the notebook does not decide\<close>

record library =
  import_module :: "string \<Rightarrow> error + unit"
  load_diabetes :: "error + bunch"
  permutation :: "nat \<Rightarrow> nat list"
  training_loop ::
    "keras_model \<Rightarrow> ndarray2 \<times> real list \<Rightarrow> ndarray2 \<times> real list \<Rightarrow> nat \<Rightarrow> nat
       \<Rightarrow> error + history_dict"

text \<open>
  \<open>train_test_split(X, y, test_size=...)\<close> of scikit-learn. The arrays must have the
  same number of samples. The sizes are validated: \<open>n_test\<close> is the ceiling of
  \<open>test_size * n_samples\<close>, \<open>n_train\<close> the rest, and an empty training set is
  refused. The generator draws a permutation of \<open>range(n_samples)\<close>: its first \<open>n_test\<close>
  entries index the test rows, the following \<open>n_train\<close> the training rows. The result
  is \<open>(X[train], X[test], y[train], y[test])\<close>.
\<close>

definition validate_shuffle_split :: "nat \<Rightarrow> real \<Rightarrow> error + (nat \<times> nat)" where
  "validate_shuffle_split n_samples test_size =
     (if test_size \<le> 0 \<or> 1 \<le> test_size then Inl (Raised ''ValueError'')
      else
        let n_test = nat \<lceil>test_size * real n_samples\<rceil>;
            n_train = n_samples - n_test
        in if n_train = 0 then Inl (Raised ''ValueError'')
           else Inr (n_train, n_test))"

definition shuffle_split :: "library \<Rightarrow> nat \<Rightarrow> nat \<Rightarrow> nat \<Rightarrow> nat list \<times> nat list" where
  "shuffle_split L n_samples n_test n_train =
     (let perm = permutation L n_samples;
          ind_test = take n_test perm;
          ind_train = take n_train (drop n_test perm)
      in (ind_train, ind_test))"

definition train_test_split ::
  "library \<Rightarrow> ndarray2 \<Rightarrow> real list \<Rightarrow> real
     \<Rightarrow> error + (ndarray2 \<times> ndarray2 \<times> real list \<times> real list)"
where
  "train_test_split L X y test_size =
     (let n_samples = length (rows X) in
      if length y \<noteq> n_samples then Inl (Raised ''ValueError'')
      else
        bind (validate_shuffle_split n_samples test_size) (\<lambda>(n_train, n_test).
        case shuffle_split L n_samples n_test n_train of
          (train, test) \<Rightarrow>
            Inr (take_rows X train, take_rows X test, take_idx y train, take_idx y test)))"

text \<open>
  What the generator promises: the drawn list is a permutation of \<open>range(n)\<close>. And what
  a loaded matrix promises: every row has \<open>ncols\<close> entries.
\<close>

definition is_permutation :: "nat list \<Rightarrow> nat \<Rightarrow> bool" where
  "is_permutation p n = (distinct p \<and> set p = {0..<n})"

definition well_formed :: "ndarray2 \<Rightarrow> bool" where
  "well_formed a = list_all (\<lambda>r. length r = ncols a) (rows a)"

text \<open>
  \<open>model.fit(x, y, epochs=..., validation_split=..., batch_size=...)\<close>. Keras sets the
  last samples of \<open>x\<close> and \<open>y\<close> apart as validation data, from index
  \<open>floor(n * (1 - validation_split))\<close> on, before any shuffling; it trains on the
  samples before that index. The loop itself belongs to the library.
\<close>

definition validation_holdout ::
  "ndarray2 \<Rightarrow> real list \<Rightarrow> real \<Rightarrow> (ndarray2 \<times> real list) \<times> (ndarray2 \<times> real list)"
where
  "validation_holdout x y validation_split =
     (let split_at = nat \<lfloor>real (length (rows x)) * (1 - validation_split)\<rfloor>
      in ((x\<lparr>rows := take split_at (rows x)\<rparr>, take split_at y),
          (x\<lparr>rows := drop split_at (rows x)\<rparr>, drop split_at y)))"

definition fit ::
  "library \<Rightarrow> keras_model \<Rightarrow> ndarray2 \<Rightarrow> real list \<Rightarrow> nat \<Rightarrow> real \<Rightarrow> nat
     \<Rightarrow> error + history_dict"
where
  "fit L m x y n_epochs validation_split batch_size =
     (case validation_holdout x y validation_split of
        (train_part, val_part) \<Rightarrow> training_loop L m train_part val_part n_epochs batch_size)"

subsection \<open>pandas and matplotlib\<close>

text \<open>
  \<open>pd.DataFrame(d)\<close> for a dictionary of lists: one column per key, and all lists must
  have the same length, which is \<open>len(frame)\<close>. \<open>frame[key]\<close> raises KeyError for a key
  that is not a column.
\<close>

record dataframe =
  columns :: "(string \<times> real list) list"
  nrows :: nat

definition DataFrame :: "history_dict \<Rightarrow> error + dataframe" where
  "DataFrame d =
     (case d of
        [] \<Rightarrow> Inr \<lparr>columns = [], nrows = 0\<rparr>
      | (k, v) # rest \<Rightarrow>
          if list_all (\<lambda>(k', v'). length v' = length v) rest
          then Inr \<lparr>columns = d, nrows = length v\<rparr>
          else Inl (Raised ''ValueError''))"

definition len :: "dataframe \<Rightarrow> nat" where
  "len fr = nrows fr"

definition getitem :: "dataframe \<Rightarrow> string \<Rightarrow> error + real list" where
  "getitem fr key =
     (case map_of (columns fr) key of
        None \<Rightarrow> Inl (Raised ''KeyError'')
      | Some v \<Rightarrow> Inr v)"

text \<open>
  A figure holds its subplots; a subplot holds the lines drawn on it and its texts.
  \<open>ax.plot(x, y, label=...)\<close> raises ValueError when \<open>x\<close> and \<open>y\<close> differ in length.
\<close>

record line2d =
  xdata :: "nat list"
  ydata :: "real list"
  label :: string

record axes =
  position :: nat
  lines :: "line2d list"
  xlabel :: string
  ylabel :: string
  title :: string
  legend_shown :: bool

record figure =
  figsize :: "nat \<times> nat"
  subplots :: "axes list"

definition add_subplot :: "nat \<Rightarrow> axes" where
  "add_subplot pos =
     \<lparr>position = pos, lines = [], xlabel = [], ylabel = [], title = [], legend_shown = False\<rparr>"

definition plot :: "axes \<Rightarrow> nat list \<Rightarrow> real list \<Rightarrow> string \<Rightarrow> error + axes" where
  "plot a x y lbl =
     (if length x \<noteq> length y then Inl (Raised ''ValueError'')
      else Inr (a\<lparr>lines := lines a @ [\<lparr>xdata = x, ydata = y, label = lbl\<rparr>]\<rparr>))"

definition set_xlabel :: "axes \<Rightarrow> string \<Rightarrow> axes" where
  "set_xlabel a s = a\<lparr>xlabel := s\<rparr>"

definition set_ylabel :: "axes \<Rightarrow> string \<Rightarrow> axes" where
  "set_ylabel a s = a\<lparr>ylabel := s\<rparr>"

definition set_title :: "axes \<Rightarrow> string \<Rightarrow> axes" where
  "set_title a s = a\<lparr>title := s\<rparr>"

definition legend :: "axes \<Rightarrow> axes" where
  "legend a = a\<lparr>legend_shown := True\<rparr>"

subsection \<open>The namespace and the cells\<close>

text \<open>
  The notebook's global variables, \<open>None\<close> until a cell assigns them. Text printed by a
  cell (\<open>print(tf.__version__)\<close>, \<open>model.summary()\<close>) is display only and not part of
  the namespace.
\<close>

record namespace =
  diabetes_dataset :: "bunch option"
  data :: "ndarray2 option"
  targets :: "real list option"
  train_data :: "ndarray2 option"
  test_data :: "ndarray2 option"
  train_targets :: "real list option"
  test_targets :: "real list option"
  model :: "keras_model option"
  history :: "history_dict option"
  frame :: "dataframe option"
  epochs :: "nat list option"
  fig :: "figure option"
  ax :: "axes option"

definition empty_namespace :: namespace where
  "empty_namespace =
     \<lparr>diabetes_dataset = None, data = None, targets = None, train_data = None,
      test_data = None, train_targets = None, test_targets = None, model = None,
      history = None, frame = None, epochs = None, fig = None, ax = None\<rparr>"

type_synonym cell = "namespace \<Rightarrow> error + namespace"

text \<open>Cell 1: \<^verbatim>\<open>import tensorflow as tf\<close>, and the version is printed.\<close>

definition cell_import_tensorflow :: "library \<Rightarrow> cell" where
  "cell_import_tensorflow L ns =
     bind (import_module L ''tensorflow'') (\<lambda>_. Inr ns)"

text \<open>Cell 2: \<^verbatim>\<open>diabetes_dataset = load_diabetes()\<close>.\<close>

definition cell_load_dataset :: "library \<Rightarrow> cell" where
  "cell_load_dataset L ns =
     bind (import_module L ''sklearn.datasets'') (\<lambda>_.
     bind (load_diabetes L) (\<lambda>d.
     Inr (ns\<lparr>diabetes_dataset := Some d\<rparr>)))"

text \<open>
  Cell 3: \<^verbatim>\<open>data = diabetes_dataset['data']\<close>,
  \<^verbatim>\<open>targets = diabetes_dataset['target']\<close>.
\<close>

definition cell_save_variables :: "library \<Rightarrow> cell" where
  "cell_save_variables L ns =
     bind (import_module L ''sklearn.model_selection'') (\<lambda>_.
     bind (lookup (diabetes_dataset ns)) (\<lambda>d.
     let ns = ns\<lparr>data := Some (bunch_data d)\<rparr> in
     bind (lookup (diabetes_dataset ns)) (\<lambda>d.
     Inr (ns\<lparr>targets := Some (bunch_target d)\<rparr>))))"

text \<open>Cell 4: the targets are replaced by the normalised targets.\<close>

definition cell_normalise_targets :: cell where
  "cell_normalise_targets ns =
     bind (lookup (targets ns)) (\<lambda>ts.
     bind (normalise_targets ts) (\<lambda>ts'.
     Inr (ns\<lparr>targets := Some ts'\<rparr>)))"

text \<open>
  Cell 5: \<^verbatim>\<open>train_data, test_data, train_targets, test_targets =
  train_test_split(data, targets, test_size=0.1)\<close>.
\<close>

definition cell_split :: "library \<Rightarrow> cell" where
  "cell_split L ns =
     bind (lookup (data ns)) (\<lambda>X.
     bind (lookup (targets ns)) (\<lambda>y.
     bind (train_test_split L X y (1 / 10)) (\<lambda>(a, b, c, d).
     Inr (ns\<lparr>train_data := Some a, test_data := Some b,
              train_targets := Some c, test_targets := Some d\<rparr>))))"

text \<open>Cell 6: the imports from \<open>tensorflow.keras\<close>.\<close>

definition cell_import_keras :: "library \<Rightarrow> cell" where
  "cell_import_keras L ns =
     bind (import_module L ''tensorflow.keras.models'') (\<lambda>_.
     bind (import_module L ''tensorflow.keras.layers'') (\<lambda>_.
     Inr ns))"

text \<open>
  Cell 7: the model is built from six layers; the input shape of the first one is
  \<open>[train_data.shape[1]]\<close>.
\<close>

definition cell_build_model :: cell where
  "cell_build_model ns =
     bind (lookup (train_data ns)) (\<lambda>td.
     Inr (ns\<lparr>model := Some (Sequential
       [Dense 64 (Some [snd (shape td)]) (Some ''relu''),
        BatchNormalization_call None None None None None,
        Dropout (1 / 2),
        BatchNormalization_call None None None None None,
        Dropout (1 / 2),
        Dense 256 None (Some ''relu'')])\<rparr>))"

text \<open>Cell 8: \<^verbatim>\<open>model.summary()\<close>.\<close>

definition cell_model_summary :: cell where
  "cell_model_summary ns =
     bind (lookup (model ns)) (\<lambda>m. Inr ns)"

text \<open>Cell 9: a customised batch-normalisation layer is appended.\<close>

definition cell_add_batchnorm :: cell where
  "cell_add_batchnorm ns =
     bind (lookup (model ns)) (\<lambda>m.
     Inr (ns\<lparr>model := Some (add m
       (BatchNormalization_call (Some (95 / 100)) (Some (5 / 1000)) (Some (- 1))
          (Some (RandomNormal 0 (5 / 100))) (Some (Constant (9 / 10)))))\<rparr>))"

text \<open>Cell 10: \<^verbatim>\<open>model.add(Dense(1))\<close>.\<close>

definition cell_add_output :: cell where
  "cell_add_output ns =
     bind (lookup (model ns)) (\<lambda>m.
     Inr (ns\<lparr>model := Some (add m (Dense 1 None None))\<rparr>))"

text \<open>Cell 11: \<^verbatim>\<open>model.compile(optimizer='adam', loss='mse', metrics=['mae'])\<close>.\<close>

definition cell_compile :: cell where
  "cell_compile ns =
     bind (lookup (model ns)) (\<lambda>m.
     Inr (ns\<lparr>model := Some (compile m ''adam'' ''mse'' [''mae''])\<rparr>))"

text \<open>
  Cell 12: \<^verbatim>\<open>history = model.fit(train_data, train_targets, epochs=100,
  validation_split=0.15, batch_size=64, verbose=False)\<close>.
\<close>

definition cell_fit :: "library \<Rightarrow> cell" where
  "cell_fit L ns =
     bind (lookup (model ns)) (\<lambda>m.
     bind (lookup (train_data ns)) (\<lambda>x.
     bind (lookup (train_targets ns)) (\<lambda>y.
     bind (fit L m x y 100 (15 / 100) 64) (\<lambda>h.
     Inr (ns\<lparr>history := Some h\<rparr>)))))"

text \<open>
  Cell 13: the history becomes a DataFrame, \<open>epochs\<close> counts its rows, and two subplots
  are drawn: loss and validation loss, then mean absolute error and its validation
  series, each against \<open>epochs\<close>.
\<close>

definition cell_plot :: "library \<Rightarrow> cell" where
  "cell_plot L ns =
     bind (import_module L ''pandas'') (\<lambda>_.
     bind (import_module L ''numpy'') (\<lambda>_.
     bind (import_module L ''matplotlib.pyplot'') (\<lambda>_.
     bind (lookup (history ns)) (\<lambda>h.
     bind (DataFrame h) (\<lambda>fr.
     let ep = arange (len fr);
         a1 = add_subplot 121 in
     bind (getitem fr ''loss'') (\<lambda>y1.
     bind (plot a1 ep y1 ''Train'') (\<lambda>a1.
     bind (getitem fr ''val_loss'') (\<lambda>y2.
     bind (plot a1 ep y2 ''Validation'') (\<lambda>a1.
     let a1 = legend (set_title (set_ylabel (set_xlabel a1 ''Epochs'') ''Loss'')
                ''Loss vs Epochs'');
         a2 = add_subplot 122 in
     bind (getitem fr ''mae'') (\<lambda>y3.
     bind (plot a2 ep y3 ''Train'') (\<lambda>a2.
     bind (getitem fr ''val_mae'') (\<lambda>y4.
     bind (plot a2 ep y4 ''Validation'') (\<lambda>a2.
     let a2 = legend (set_title (set_ylabel (set_xlabel a2 ''Epochs'')
                ''Mean Absolute Error'') ''Mean Absolute Error vs Epochs'')
     in Inr (ns\<lparr>frame := Some fr, epochs := Some ep,
                fig := Some \<lparr>figsize = (12, 4), subplots = [a1, a2]\<rparr>,
                ax := Some a2\<rparr>))))))))))))))"

subsection \<open>The notebook\<close>

definition notebook :: "library \<Rightarrow> cell list" where
  "notebook L =
     [cell_import_tensorflow L,
      cell_load_dataset L,
      cell_save_variables L,
      cell_normalise_targets,
      cell_split L,
      cell_import_keras L,
      cell_build_model,
      cell_model_summary,
      cell_add_batchnorm,
      cell_add_output,
      cell_compile,
      cell_fit L,
      cell_plot L]"

fun run_cells :: "cell list \<Rightarrow> namespace \<Rightarrow> error + namespace" where
  "run_cells [] ns = Inr ns"
| "run_cells (c # cs) ns = (case c ns of Inl e \<Rightarrow> Inl e | Inr ns' \<Rightarrow> run_cells cs ns')"

definition run_all :: "library \<Rightarrow> error + namespace" where
  "run_all L = run_cells (notebook L) empty_namespace"

text \<open>
  The model after cells 7, 9, 10 and 11 have run on the training data \<open>td\<close>: the six
  layers of cell 7, the two layers added in cells 9 and 10, compiled as in cell 11.
\<close>

definition built_model :: "ndarray2 \<Rightarrow> keras_model" where
  "built_model td =
     compile
       (add
         (add
           (Sequential
             [Dense 64 (Some [snd (shape td)]) (Some ''relu''),
              BatchNormalization_call None None None None None,
              Dropout (1 / 2),
              BatchNormalization_call None None None None None,
              Dropout (1 / 2),
              Dense 256 None (Some ''relu'')])
           (BatchNormalization_call (Some (95 / 100)) (Some (5 / 1000)) (Some (- 1))
              (Some (RandomNormal 0 (5 / 100))) (Some (Constant (9 / 10)))))
         (Dense 1 None None))
       ''adam'' ''mse'' [''mae'']"

text \<open>
  The figure cell 13 draws from the four series it reads, each against \<open>arange(n)\<close>.
\<close>

definition learning_curves ::
  "nat \<Rightarrow> real list \<Rightarrow> real list \<Rightarrow> real list \<Rightarrow> real list \<Rightarrow> figure" where
  "learning_curves n y1 y2 y3 y4 =
     \<lparr>figsize = (12, 4),
      subplots =
        [\<lparr>position = 121,
          lines = [\<lparr>xdata = arange n, ydata = y1, label = ''Train''\<rparr>,
                   \<lparr>xdata = arange n, ydata = y2, label = ''Validation''\<rparr>],
          xlabel = ''Epochs'', ylabel = ''Loss'', title = ''Loss vs Epochs'',
          legend_shown = True\<rparr>,
         \<lparr>position = 122,
          lines = [\<lparr>xdata = arange n, ydata = y3, label = ''Train''\<rparr>,
                   \<lparr>xdata = arange n, ydata = y4, label = ''Validation''\<rparr>],
          xlabel = ''Epochs'', ylabel = ''Mean Absolute Error'',
          title = ''Mean Absolute Error vs Epochs'', legend_shown = True\<rparr>]\<rparr>"



subsection \<open>A small concrete run\<close>

text \<open>
  A library with four samples of ten features, every import succeeding, the splitter
  drawing the reversed order, and a training loop that records four constant series of
  one value per epoch. The theorems below are exercised on it.
\<close>

definition sample_dataset :: bunch where
  "sample_dataset =
     \<lparr>bunch_data = \<lparr>ncols = 10,
                     rows = [replicate 10 1, replicate 10 2, replicate 10 3, replicate 10 4]\<rparr>,
      bunch_target = [1, 3, 1, 3]\<rparr>"

definition sample_history :: "nat \<Rightarrow> history_dict" where
  "sample_history n =
     [(''loss'', replicate n 1), (''mae'', replicate n 2),
      (''val_loss'', replicate n 3), (''val_mae'', replicate n 4)]"

definition sample_library :: library where
  "sample_library =
     \<lparr>import_module = (\<lambda>_. Inr ()),
      load_diabetes = Inr sample_dataset,
      permutation = (\<lambda>n. rev [0..<n]),
      training_loop = (\<lambda>m tr va n_epochs batch_size. Inr (sample_history n_epochs))\<rparr>"

text \<open>The namespace of that run after cell 5, and at the end.\<close>

definition sample_after_split :: namespace where
  "sample_after_split =
     \<lparr>diabetes_dataset = Some sample_dataset,
      data = Some (bunch_data sample_dataset),
      targets = Some [- 1, 1, - 1, 1],
      train_data = Some \<lparr>ncols = 10, rows = [replicate 10 3, replicate 10 2, replicate 10 1]\<rparr>,
      test_data = Some \<lparr>ncols = 10, rows = [replicate 10 4]\<rparr>,
      train_targets = Some [- 1, 1, - 1],
      test_targets = Some [1],
      model = None, history = None, frame = None, epochs = None, fig = None, ax = None\<rparr>"

definition sample_final :: namespace where
  "sample_final =
     sample_after_split
       \<lparr>model := Some (built_model
                  \<lparr>ncols = 10, rows = [replicate 10 3, replicate 10 2, replicate 10 1]\<rparr>),
        history := Some (sample_history 100),
        frame := Some \<lparr>columns = sample_history 100, nrows = 100\<rparr>,
        epochs := Some (arange 100),
        fig := Some (learning_curves 100 (replicate 100 1) (replicate 100 3)
                       (replicate 100 2) (replicate 100 4)),
        ax := Some (subplots (learning_curves 100 (replicate 100 1) (replicate 100 3)
                       (replicate 100 2) (replicate 100 4)) ! 1)\<rparr>"





section \<open>Proofs\<close>

subsection \<open>Sequencing\<close>

lemma bind_Inl [simp]: "bind (Inl e) f = Inl e"
  by (simp add: bind_def)

lemma bind_Inr [simp]: "bind (Inr x) f = f x"
  by (simp add: bind_def)

lemma bind_eq_Inr: "bind r f = Inr y \<longleftrightarrow> (\<exists>x. r = Inr x \<and> f x = Inr y)"
  by (cases r) simp_all


lemma lookup_Some [simp]: "lookup (Some x) = Inr x"
  by (simp add: lookup_def)

lemma lookup_None [simp]: "lookup None = Inl (Raised ''NameError'')"
  by (simp add: lookup_def)

lemma lookup_eq_Inr: "lookup v = Inr x \<longleftrightarrow> v = Some x"
  by (cases v) simp_all

subsection \<open>Mean and standard deviation\<close>





lemma mean_Nil [simp]: "mean [] = Inl UndefinedDivision"
  by (simp add: mean_def)

lemma std_Nil [simp]: "std [] = Inl UndefinedDivision"
  by (simp add: std_def)









subsection \<open>The normalised targets\<close>






subsection \<open>Running the cells\<close>

lemma run_cells_append:
  "run_cells (cs @ ds) ns = (case run_cells cs ns of Inl e \<Rightarrow> Inl e | Inr s \<Rightarrow> run_cells ds s)"
  by (induction cs arbitrary: ns) (simp_all split: sum.splits)

lemma run_cells_take_drop:
  "run_cells cs ns = (case run_cells (take k cs) ns of Inl e \<Rightarrow> Inl e | Inr s \<Rightarrow> run_cells (drop k cs) s)"
  using run_cells_append[of "take k cs" "drop k cs" ns] by simp

lemma length_notebook: "length (notebook L) = 13"
  by (simp add: notebook_def)

lemma take_4_notebook:
  "take 4 (notebook L) =
     [cell_import_tensorflow L, cell_load_dataset L, cell_save_variables L, cell_normalise_targets]"
  by (simp add: notebook_def)

lemma take_5_notebook:
  "take 5 (notebook L) = take 4 (notebook L) @ [cell_split L]"
  by (simp add: notebook_def)

lemma drop_5_notebook:
  "drop 5 (notebook L) =
     [cell_import_keras L, cell_build_model, cell_model_summary, cell_add_batchnorm,
      cell_add_output, cell_compile, cell_fit L] @ [cell_plot L]"
  by (simp add: notebook_def)

lemma before_split_InrD:
  assumes "run_cells (take 4 (notebook L)) empty_namespace = Inr s"
  shows "\<exists>ds zs. load_diabetes L = Inr ds \<and> normalise_targets (bunch_target ds) = Inr zs
     \<and> s = empty_namespace\<lparr>diabetes_dataset := Some ds, data := Some (bunch_data ds),
                            targets := Some zs\<rparr>"
  using assms unfolding take_4_notebook
  by (auto simp: cell_import_tensorflow_def cell_load_dataset_def cell_save_variables_def
      cell_normalise_targets_def bind_eq_Inr lookup_eq_Inr empty_namespace_def
      split: sum.splits)

lemma cell_split_InrD:
  assumes "cell_split L s = Inr s'"
  shows "\<exists>X y a b c d. data s = Some X \<and> targets s = Some y
     \<and> train_test_split L X y (1 / 10) = Inr (a, b, c, d)
     \<and> s' = s\<lparr>train_data := Some a, test_data := Some b,
               train_targets := Some c, test_targets := Some d\<rparr>"
  using assms by (auto simp: cell_split_def bind_eq_Inr lookup_eq_Inr)

lemma split_InrD:
  assumes "run_cells (take 5 (notebook L)) empty_namespace = Inr s"
  shows "\<exists>ds zs a b c d. load_diabetes L = Inr ds \<and> normalise_targets (bunch_target ds) = Inr zs
     \<and> train_test_split L (bunch_data ds) zs (1 / 10) = Inr (a, b, c, d)
     \<and> run_cells (take 4 (notebook L)) empty_namespace
         = Inr (empty_namespace\<lparr>diabetes_dataset := Some ds, data := Some (bunch_data ds),
                                 targets := Some zs\<rparr>)
     \<and> s = empty_namespace\<lparr>diabetes_dataset := Some ds, data := Some (bunch_data ds),
          targets := Some zs, train_data := Some a, test_data := Some b,
          train_targets := Some c, test_targets := Some d\<rparr>"
proof -
  from assms obtain s4 where s4: "run_cells (take 4 (notebook L)) empty_namespace = Inr s4"
    and s5: "cell_split L s4 = Inr s"
    by (auto simp: take_5_notebook run_cells_append split: sum.splits)
  from before_split_InrD[OF s4] cell_split_InrD[OF s5] s4 show ?thesis
    by (auto simp: empty_namespace_def)
qed

lemma model_cells_InrD:
  assumes "run_cells [cell_import_keras L, cell_build_model, cell_model_summary,
             cell_add_batchnorm, cell_add_output, cell_compile, cell_fit L] s = Inr s'"
  shows "\<exists>td tt h. train_data s = Some td \<and> train_targets s = Some tt
     \<and> fit L (built_model td) td tt 100 (15 / 100) 64 = Inr h
     \<and> s' = s\<lparr>model := Some (built_model td), history := Some h\<rparr>"
  using assms
  by (auto simp: cell_import_keras_def cell_build_model_def cell_model_summary_def
      cell_add_batchnorm_def cell_add_output_def cell_compile_def cell_fit_def
      built_model_def bind_eq_Inr lookup_eq_Inr split: sum.splits)

lemma plot_InrD:
  assumes "plot a x y l = Inr a'"
  shows "length x = length y \<and> a' = a\<lparr>lines := lines a @ [\<lparr>xdata = x, ydata = y, label = l\<rparr>]\<rparr>"
  using assms by (auto simp: plot_def split: if_splits)

lemma cell_plot_InrD:
  assumes "cell_plot L s = Inr ns"
  shows "\<exists>h fr y1 y2 y3 y4. history s = Some h \<and> DataFrame h = Inr fr
     \<and> getitem fr ''loss'' = Inr y1 \<and> getitem fr ''val_loss'' = Inr y2
     \<and> getitem fr ''mae'' = Inr y3 \<and> getitem fr ''val_mae'' = Inr y4
     \<and> length y1 = len fr \<and> length y2 = len fr \<and> length y3 = len fr \<and> length y4 = len fr
     \<and> ns = s\<lparr>frame := Some fr, epochs := Some (arange (len fr)),
               fig := Some (learning_curves (len fr) y1 y2 y3 y4),
               ax := Some (subplots (learning_curves (len fr) y1 y2 y3 y4) ! 1)\<rparr>"
  using assms unfolding cell_plot_def Let_def bind_eq_Inr lookup_eq_Inr
  by (auto dest!: plot_InrD simp: learning_curves_def add_subplot_def set_xlabel_def set_ylabel_def
      set_title_def legend_def arange_def)


lemma run_all_InrD:
  assumes "run_all L = Inr ns"
  shows "\<exists>ds zs a b c d h fr y1 y2 y3 y4.
       load_diabetes L = Inr ds \<and> normalise_targets (bunch_target ds) = Inr zs
     \<and> train_test_split L (bunch_data ds) zs (1 / 10) = Inr (a, b, c, d)
     \<and> fit L (built_model a) a c 100 (15 / 100) 64 = Inr h
     \<and> DataFrame h = Inr fr
     \<and> getitem fr ''loss'' = Inr y1 \<and> getitem fr ''val_loss'' = Inr y2
     \<and> getitem fr ''mae'' = Inr y3 \<and> getitem fr ''val_mae'' = Inr y4
     \<and> length y1 = len fr \<and> length y2 = len fr \<and> length y3 = len fr \<and> length y4 = len fr
     \<and> run_cells (take 5 (notebook L)) empty_namespace
         = Inr (empty_namespace\<lparr>diabetes_dataset := Some ds, data := Some (bunch_data ds),
             targets := Some zs, train_data := Some a, test_data := Some b,
             train_targets := Some c, test_targets := Some d\<rparr>)
     \<and> ns = empty_namespace\<lparr>diabetes_dataset := Some ds, data := Some (bunch_data ds),
          targets := Some zs, train_data := Some a, test_data := Some b,
          train_targets := Some c, test_targets := Some d,
          model := Some (built_model a), history := Some h,
          frame := Some fr, epochs := Some (arange (len fr)),
          fig := Some (learning_curves (len fr) y1 y2 y3 y4),
          ax := Some (subplots (learning_curves (len fr) y1 y2 y3 y4) ! 1)\<rparr>"
proof -
  from assms obtain s5 where s5: "run_cells (take 5 (notebook L)) empty_namespace = Inr s5"
    and rest: "run_cells (drop 5 (notebook L)) s5 = Inr ns"
    using run_cells_take_drop[of "notebook L" empty_namespace 5]
    by (auto simp: run_all_def split: sum.splits)
  from rest obtain s12 where
    s12: "run_cells [cell_import_keras L, cell_build_model, cell_model_summary,
             cell_add_batchnorm, cell_add_output, cell_compile, cell_fit L] s5 = Inr s12"
    and s13: "cell_plot L s12 = Inr ns"
    unfolding drop_5_notebook run_cells_append by (auto split: sum.splits)
  from split_InrD[OF s5] obtain ds zs a b c d where
    A: "load_diabetes L = Inr ds" "normalise_targets (bunch_target ds) = Inr zs"
       "train_test_split L (bunch_data ds) zs (1 / 10) = Inr (a, b, c, d)"
       "s5 = empty_namespace\<lparr>diabetes_dataset := Some ds, data := Some (bunch_data ds),
          targets := Some zs, train_data := Some a, test_data := Some b,
          train_targets := Some c, test_targets := Some d\<rparr>"
    by blast
  from model_cells_InrD[OF s12] A(4) obtain h where
    B: "fit L (built_model a) a c 100 (15 / 100) 64 = Inr h"
       "s12 = s5\<lparr>model := Some (built_model a), history := Some h\<rparr>"
    by auto
  from cell_plot_InrD[OF s13] B(2) obtain fr y1 y2 y3 y4 where
    C: "DataFrame h = Inr fr"
       "getitem fr ''loss'' = Inr y1" "getitem fr ''val_loss'' = Inr y2"
       "getitem fr ''mae'' = Inr y3" "getitem fr ''val_mae'' = Inr y4"
       "length y1 = len fr" "length y2 = len fr" "length y3 = len fr" "length y4 = len fr"
       "ns = s12\<lparr>frame := Some fr, epochs := Some (arange (len fr)),
               fig := Some (learning_curves (len fr) y1 y2 y3 y4),
               ax := Some (subplots (learning_curves (len fr) y1 y2 y3 y4) ! 1)\<rparr>"
    by auto
  show ?thesis
    using A(1,2,3) B(1) C(1-9) s5 unfolding C(10) B(2) A(4) by blast
qed

subsection \<open>The sample run\<close>

lemma sample_normalised: "normalise_targets [1, 3, 1, 3] = Inr [- 1, 1, - 1, 1]"
  by (simp add: normalise_targets_def std_def mean_def)

lemma sample_library_simps [simp]:
  "import_module sample_library name = Inr ()"
  "load_diabetes sample_library = Inr sample_dataset"
  "permutation sample_library n = rev [0..<n]"
  "training_loop sample_library m tr va k b = Inr (sample_history k)"
  by (simp_all add: sample_library_def)

lemma sample_split:
  "train_test_split sample_library \<lparr>ncols = 10, rows = [r0, r1, r2, r3]\<rparr> [z0, z1, z2, z3] (1 / 10)
     = Inr (\<lparr>ncols = 10, rows = [r2, r1, r0]\<rparr>, \<lparr>ncols = 10, rows = [r3]\<rparr>,
            [z2, z1, z0], [z3])"
  by (simp add: train_test_split_def validate_shuffle_split_def shuffle_split_def
      take_rows_def take_idx_def upt_rec)

lemma sample_prefix:
  "run_cells (take 5 (notebook sample_library)) empty_namespace = Inr sample_after_split"
  unfolding take_5_notebook take_4_notebook
  by (simp add: cell_import_tensorflow_def cell_load_dataset_def cell_save_variables_def
      cell_normalise_targets_def cell_split_def empty_namespace_def sample_after_split_def
      sample_dataset_def sample_normalised sample_split)

lemma sample_fit:
  "fit sample_library m x y k v b = Inr (sample_history k)"
  by (simp add: fit_def split: prod.splits)

lemma sample_frame:
  "DataFrame (sample_history 100) = Inr \<lparr>columns = sample_history 100, nrows = 100\<rparr>"
  by (simp add: DataFrame_def sample_history_def)

lemma sample_columns:
  "getitem \<lparr>columns = sample_history 100, nrows = 100\<rparr> ''loss'' = Inr (replicate 100 1)"
  "getitem \<lparr>columns = sample_history 100, nrows = 100\<rparr> ''mae'' = Inr (replicate 100 2)"
  "getitem \<lparr>columns = sample_history 100, nrows = 100\<rparr> ''val_loss'' = Inr (replicate 100 3)"
  "getitem \<lparr>columns = sample_history 100, nrows = 100\<rparr> ''val_mae'' = Inr (replicate 100 4)"
  by (simp_all add: getitem_def sample_history_def)

lemma sample_rest:
  "run_cells (drop 5 (notebook sample_library)) sample_after_split = Inr sample_final"
  unfolding drop_5_notebook
  by (simp add: cell_import_keras_def cell_build_model_def cell_model_summary_def
      cell_add_batchnorm_def cell_add_output_def cell_compile_def cell_fit_def cell_plot_def
      sample_after_split_def sample_final_def sample_fit sample_frame sample_columns
      built_model_def len_def plot_def arange_def learning_curves_def add_subplot_def
      set_xlabel_def set_ylabel_def set_title_def legend_def Let_def)

lemma sample_run: "run_all sample_library = Inr sample_final"
  using run_cells_take_drop[of "notebook sample_library" empty_namespace 5]
  by (simp add: run_all_def sample_prefix sample_rest)

subsection \<open>The split\<close>

lemma validate_shuffle_split_InrD:
  assumes "validate_shuffle_split n ts = Inr (n_train, n_test)"
  shows "n_test = nat \<lceil>ts * real n\<rceil> \<and> n_train = n - n_test \<and> 0 < n_train \<and> n_train + n_test = n"
  using assms by (auto simp: validate_shuffle_split_def Let_def split: if_splits)

lemma train_test_split_InrD:
  assumes "train_test_split L X y ts = Inr (a, b, c, d)"
  shows "\<exists>n_train n_test tr te. length y = length (rows X)
     \<and> validate_shuffle_split (length (rows X)) ts = Inr (n_train, n_test)
     \<and> shuffle_split L (length (rows X)) n_test n_train = (tr, te)
     \<and> a = take_rows X tr \<and> b = take_rows X te \<and> c = take_idx y tr \<and> d = take_idx y te"
proof -
  from assms have len: "length y = length (rows X)"
    by (auto simp: train_test_split_def Let_def split: if_splits)
  show ?thesis
  proof (cases "validate_shuffle_split (length (rows X)) ts")
    case (Inl e)
    then show ?thesis
      using assms len by (simp add: train_test_split_def)
  next
    case (Inr p)
    obtain n_train n_test where p: "p = (n_train, n_test)"
      by (cases p)
    obtain tr te where st: "shuffle_split L (length (rows X)) n_test n_train = (tr, te)"
      by (cases "shuffle_split L (length (rows X)) n_test n_train")
    show ?thesis
      using assms len Inr p st by (simp add: train_test_split_def)
  qed
qed

lemma is_permutation_length: "is_permutation p n \<Longrightarrow> length p = n"
  using distinct_card[of p] by (simp add: is_permutation_def)

lemma shuffle_split_partition:
  assumes "is_permutation (permutation L n) n" and "n_train + n_test = n"
    and "shuffle_split L n n_test n_train = (tr, te)"
  shows "distinct tr \<and> distinct te \<and> set tr \<inter> set te = {} \<and> set tr \<union> set te = {0..<n}
     \<and> length tr = n_train \<and> length te = n_test"
proof -
  let ?p = "permutation L n"
  have len: "length ?p = n"
    using assms(1) by (rule is_permutation_length)
  have te: "te = take n_test ?p" and tr: "tr = drop n_test ?p"
    using assms(2,3) len by (auto simp: shuffle_split_def Let_def)
  have d: "distinct (take n_test ?p @ drop n_test ?p)"
    using assms(1) by (simp add: is_permutation_def)
  have "set (take n_test ?p) \<union> set (drop n_test ?p) = {0..<n}"
    using assms(1) set_append[of "take n_test ?p" "drop n_test ?p"]
    by (simp add: is_permutation_def)
  then show ?thesis
    using d len assms(2) unfolding te tr distinct_append by auto
qed

lemma normalise_targets_length:
  "normalise_targets ts = Inr zs \<Longrightarrow> length zs = length ts"
  by (auto simp: normalise_targets_def bind_eq_Inr split: if_splits)

subsection \<open>The order of the steps\<close>

text \<open>
  C3. In a run that completes, the targets are normalised as one whole vector in cell 4,
  while no train or test variable exists yet; cell 5 hands this normalised vector to
  \<open>train_test_split\<close>, so the training and test targets are selections of normalised
  values; right after cell 5 there is no model, history, frame or figure; those come
  from the cells that follow, which build and compile the model, fit it and plot.
\<close>

theorem normalise_then_split_then_model:
  assumes "run_all L = Inr ns"
  shows "\<exists>ds zs s4 s5 a b c d m.
       load_diabetes L = Inr ds
     \<and> normalise_targets (bunch_target ds) = Inr zs \<and> length zs = length (bunch_target ds)
     \<and> run_cells (take 4 (notebook L)) empty_namespace = Inr s4
     \<and> targets s4 = Some zs
     \<and> train_data s4 = None \<and> test_data s4 = None
     \<and> train_targets s4 = None \<and> test_targets s4 = None
     \<and> cell_split L s4 = Inr s5
     \<and> train_test_split L (bunch_data ds) zs (1 / 10) = Inr (a, b, c, d)
     \<and> train_data s5 = Some a \<and> test_data s5 = Some b
     \<and> train_targets s5 = Some c \<and> test_targets s5 = Some d
     \<and> model s5 = None \<and> history s5 = None \<and> frame s5 = None \<and> fig s5 = None
     \<and> run_cells (drop 5 (notebook L)) s5 = Inr ns
     \<and> model ns = Some m \<and> compiled m \<noteq> None \<and> history ns \<noteq> None \<and> frame ns \<noteq> None
     \<and> fig ns \<noteq> None"
proof -
  from run_all_InrD[OF assms] obtain ds zs a b c d h fr y1 y2 y3 y4 where
    ld: "load_diabetes L = Inr ds" and nz: "normalise_targets (bunch_target ds) = Inr zs"
    and sp: "train_test_split L (bunch_data ds) zs (1 / 10) = Inr (a, b, c, d)"
    and s5: "run_cells (take 5 (notebook L)) empty_namespace
         = Inr (empty_namespace\<lparr>diabetes_dataset := Some ds, data := Some (bunch_data ds),
             targets := Some zs, train_data := Some a, test_data := Some b,
             train_targets := Some c, test_targets := Some d\<rparr>)"
      (is "_ = Inr ?s5")
    and ns: "ns = empty_namespace\<lparr>diabetes_dataset := Some ds, data := Some (bunch_data ds),
          targets := Some zs, train_data := Some a, test_data := Some b,
          train_targets := Some c, test_targets := Some d,
          model := Some (built_model a), history := Some h,
          frame := Some fr, epochs := Some (arange (len fr)),
          fig := Some (learning_curves (len fr) y1 y2 y3 y4),
          ax := Some (subplots (learning_curves (len fr) y1 y2 y3 y4) ! 1)\<rparr>"
    by blast
  let ?s4 = "empty_namespace\<lparr>diabetes_dataset := Some ds, data := Some (bunch_data ds),
                            targets := Some zs\<rparr>"
  have s4: "run_cells (take 4 (notebook L)) empty_namespace = Inr ?s4"
    using split_InrD[OF s5] ld nz by auto
  have cs: "cell_split L ?s4 = Inr ?s5"
    using sp by (simp add: cell_split_def)
  have rest: "run_cells (drop 5 (notebook L)) ?s5 = Inr ns"
    using assms s5 run_cells_take_drop[of "notebook L" empty_namespace 5]
    by (simp add: run_all_def)
  have "compiled (built_model a) \<noteq> None"
    by (simp add: built_model_def compile_def)
  then show ?thesis
    using ld nz normalise_targets_length[OF nz] s4 cs sp rest
    unfolding ns by (intro exI[of _ ds] exI[of _ zs] exI[of _ ?s4] exI[of _ ?s5] exI[of _ a]
        exI[of _ b] exI[of _ c] exI[of _ d] exI[of _ "built_model a"])
      (simp add: empty_namespace_def)
qed

theorem normalise_then_split_then_model_witness:
  "run_all sample_library = Inr sample_final
   \<and> normalise_targets (bunch_target sample_dataset) = Inr [- 1, 1, - 1, 1]
   \<and> run_cells (take 5 (notebook sample_library)) empty_namespace = Inr sample_after_split
   \<and> train_targets sample_after_split = Some [- 1, 1, - 1]
   \<and> model sample_after_split = None
   \<and> model sample_final \<noteq> None"
  using normalise_then_split_then_model[OF sample_run] sample_run sample_prefix
  by (simp add: sample_dataset_def sample_normalised sample_after_split_def sample_final_def)

subsection \<open>The model\<close>

lemma built_model_layers:
  "layers (built_model td) =
     [Dense 64 (Some [snd (shape td)]) (Some ''relu''),
      BatchNormalization \<lparr>momentum = 99 / 100, epsilon = 1 / 1000, axis = - 1,
        beta_initializer = Zeros, gamma_initializer = Ones\<rparr>,
      Dropout (1 / 2),
      BatchNormalization \<lparr>momentum = 99 / 100, epsilon = 1 / 1000, axis = - 1,
        beta_initializer = Zeros, gamma_initializer = Ones\<rparr>,
      Dropout (1 / 2),
      Dense 256 None (Some ''relu''),
      BatchNormalization \<lparr>momentum = 95 / 100, epsilon = 5 / 1000, axis = - 1,
        beta_initializer = RandomNormal 0 (5 / 100), gamma_initializer = Constant (9 / 10)\<rparr>,
      Dense 1 None None]"
  by (simp add: built_model_def compile_def add_def Sequential_def BatchNormalization_call_def
      keyword_def)

text \<open>
  C4. The model of a completed run contains a batch-normalisation layer with every
  hyperparameter at its default (momentum 0.99, epsilon 0.001, axis -1, zero \<open>beta\<close>,
  unit \<open>gamma\<close>) and one with the customised hyperparameters (momentum 0.95, epsilon
  0.005, axis -1, random-normal \<open>beta\<close>, constant 0.9 \<open>gamma\<close>).
\<close>

theorem default_and_custom_batch_normalisation:
  assumes "run_all L = Inr ns"
  shows "\<exists>m. model ns = Some m
     \<and> BatchNormalization \<lparr>momentum = 99 / 100, epsilon = 1 / 1000, axis = - 1,
          beta_initializer = Zeros, gamma_initializer = Ones\<rparr> \<in> set (layers m)
     \<and> BatchNormalization \<lparr>momentum = 95 / 100, epsilon = 5 / 1000, axis = - 1,
          beta_initializer = RandomNormal 0 (5 / 100),
          gamma_initializer = Constant (9 / 10)\<rparr> \<in> set (layers m)"
proof -
  from run_all_InrD[OF assms] obtain a where "model ns = Some (built_model a)"
    by auto
  then show ?thesis
    by (simp add: built_model_layers)
qed

theorem default_and_custom_batch_normalisation_witness:
  "run_all sample_library = Inr sample_final
   \<and> (\<exists>m. model sample_final = Some m
     \<and> BatchNormalization \<lparr>momentum = 99 / 100, epsilon = 1 / 1000, axis = - 1,
          beta_initializer = Zeros, gamma_initializer = Ones\<rparr> \<in> set (layers m)
     \<and> BatchNormalization \<lparr>momentum = 95 / 100, epsilon = 5 / 1000, axis = - 1,
          beta_initializer = RandomNormal 0 (5 / 100),
          gamma_initializer = Constant (9 / 10)\<rparr> \<in> set (layers m))"
  using default_and_custom_batch_normalisation[OF sample_run] sample_run by blast

lemma take_rows_well_formed:
  assumes "well_formed X" and "set idx \<subseteq> {0..<length (rows X)}"
  shows "ncols (take_rows X idx) = ncols X \<and> well_formed (take_rows X idx)"
  using assms
  by (auto simp: well_formed_def take_rows_def take_idx_def list_all_iff)

text \<open>
  C5. When the loaded feature matrix has 10 columns (every row 10 entries), so has the
  training matrix handed to the model, and the first layer of the model is the Dense
  layer whose declared input shape is \<open>[train_data.shape[1]]\<close>, the number of
  feature columns of the training data.
\<close>

theorem input_shape_is_feature_width:
  assumes "load_diabetes L = Inr ds"
    and "ncols (bunch_data ds) = 10"
    and "well_formed (bunch_data ds)"
    and "is_permutation (permutation L (length (rows (bunch_data ds))))
           (length (rows (bunch_data ds)))"
    and "run_all L = Inr ns"
  shows "\<exists>td m rest. train_data ns = Some td \<and> model ns = Some m
     \<and> snd (shape td) = 10 \<and> list_all (\<lambda>r. length r = 10) (rows td)
     \<and> layers m = Dense 64 (Some [snd (shape td)]) (Some ''relu'') # rest"
proof -
  let ?X = "bunch_data ds"
  from run_all_InrD[OF assms(5)] assms(1) obtain zs a b c d where
    sp: "train_test_split L ?X zs (1 / 10) = Inr (a, b, c, d)"
    and td: "train_data ns = Some a" and m: "model ns = Some (built_model a)"
    by auto
  from train_test_split_InrD[OF sp] obtain n_train n_test tr te where
    v: "validate_shuffle_split (length (rows ?X)) (1 / 10) = Inr (n_train, n_test)"
    and st: "shuffle_split L (length (rows ?X)) n_test n_train = (tr, te)"
    and a: "a = take_rows ?X tr"
    by blast
  from validate_shuffle_split_InrD[OF v] have "n_train + n_test = length (rows ?X)"
    by simp
  from shuffle_split_partition[OF assms(4) this st] have "set tr \<subseteq> {0..<length (rows ?X)}"
    by blast
  from take_rows_well_formed[OF assms(3) this] assms(2) a
  have "ncols a = 10 \<and> list_all (\<lambda>r. length r = 10) (rows a)"
    unfolding well_formed_def by metis
  then show ?thesis
    using td m by (simp add: built_model_layers shape_def)
qed

lemma sample_is_permutation: "is_permutation (permutation sample_library n) n"
  by (simp add: is_permutation_def)

theorem input_shape_is_feature_width_witness:
  "load_diabetes sample_library = Inr sample_dataset
   \<and> ncols (bunch_data sample_dataset) = 10
   \<and> well_formed (bunch_data sample_dataset)
   \<and> is_permutation (permutation sample_library (length (rows (bunch_data sample_dataset))))
        (length (rows (bunch_data sample_dataset)))
   \<and> run_all sample_library = Inr sample_final
   \<and> (\<exists>td m rest. train_data sample_final = Some td \<and> model sample_final = Some m
     \<and> snd (shape td) = 10 \<and> list_all (\<lambda>r. length r = 10) (rows td)
     \<and> layers m = Dense 64 (Some [snd (shape td)]) (Some ''relu'') # rest)"
proof -
  have h1: "load_diabetes sample_library = Inr sample_dataset"
    by simp
  have h2: "ncols (bunch_data sample_dataset) = 10"
    by (simp add: sample_dataset_def)
  have h3: "well_formed (bunch_data sample_dataset)"
    by (simp add: sample_dataset_def well_formed_def)
  show ?thesis
    using input_shape_is_feature_width[OF h1 h2 h3 sample_is_permutation sample_run]
      h1 h2 h3 sample_is_permutation sample_run
    by blast
qed

subsection \<open>The history and the plot\<close>






subsection \<open>The test split after cell 5\<close>

lemma run_cells_commute:
  assumes "\<And>c s. c \<in> set cs \<Longrightarrow> c (upd s) = map_sum id upd (c s)"
  shows "run_cells cs (upd s) = map_sum id upd (run_cells cs s)"
  using assms
proof (induction cs arbitrary: s)
  case Nil
  then show ?case by simp
next
  case (Cons c cs)
  have c: "c (upd s) = map_sum id upd (c s)"
    by (rule Cons.prems) simp
  have cs: "run_cells cs (upd s') = map_sum id upd (run_cells cs s')" for s'
    by (rule Cons.IH) (simp add: Cons.prems)
  show ?case
    by (cases "c s") (simp_all add: c cs id_def)
qed

lemma later_cells_ignore_test_split:
  assumes "c \<in> set (drop 5 (notebook L))"
  shows "c (s\<lparr>test_data := td, test_targets := tt\<rparr>)
     = map_sum id (\<lambda>ns. ns\<lparr>test_data := td, test_targets := tt\<rparr>) (c s)"
proof -
  from assms consider "c = cell_import_keras L" | "c = cell_build_model"
    | "c = cell_model_summary" | "c = cell_add_batchnorm" | "c = cell_add_output"
    | "c = cell_compile" | "c = cell_fit L" | "c = cell_plot L"
    unfolding drop_5_notebook by auto
  then show ?thesis
  proof cases
    case 1
    then show ?thesis by (simp add: cell_import_keras_def bind_def lookup_def split: sum.splits option.splits)
  next
    case 2
    then show ?thesis by (simp add: cell_build_model_def bind_def lookup_def split: sum.splits option.splits)
  next
    case 3
    then show ?thesis by (simp add: cell_model_summary_def bind_def lookup_def split: sum.splits option.splits)
  next
    case 4
    then show ?thesis by (simp add: cell_add_batchnorm_def bind_def lookup_def split: sum.splits option.splits)
  next
    case 5
    then show ?thesis by (simp add: cell_add_output_def bind_def lookup_def split: sum.splits option.splits)
  next
    case 6
    then show ?thesis by (simp add: cell_compile_def bind_def lookup_def split: sum.splits option.splits)
  next
    case 7
    then show ?thesis by (simp add: cell_fit_def bind_def lookup_def split: sum.splits option.splits)
  next
    case 8
    then show ?thesis by (simp add: cell_plot_def bind_def lookup_def Let_def split: sum.splits option.splits)
  qed
qed

text \<open>
  C9. The cells after the split neither read nor write \<open>test_data\<close> and
  \<open>test_targets\<close>: run from any namespace, cells 6 to 13 give the same outcome
  whatever these two variables hold (the same exception, or the same namespace up to
  these two variables), and in a namespace they return the two variables are as they
  were.
\<close>

theorem test_split_never_read_or_modified:
  "run_cells (drop 5 (notebook L)) (s\<lparr>test_data := td, test_targets := tt\<rparr>)
     = map_sum id (\<lambda>ns. ns\<lparr>test_data := td, test_targets := tt\<rparr>)
         (run_cells (drop 5 (notebook L)) s)
   \<and> (run_cells (drop 5 (notebook L)) s = Inr ns
        \<longrightarrow> test_data ns = test_data s \<and> test_targets ns = test_targets s)"
proof
  show eq: "run_cells (drop 5 (notebook L)) (s\<lparr>test_data := td, test_targets := tt\<rparr>)
     = map_sum id (\<lambda>ns. ns\<lparr>test_data := td, test_targets := tt\<rparr>)
         (run_cells (drop 5 (notebook L)) s)" for s td tt
    by (rule run_cells_commute) (rule later_cells_ignore_test_split)
  show "run_cells (drop 5 (notebook L)) s = Inr ns
        \<longrightarrow> test_data ns = test_data s \<and> test_targets ns = test_targets s"
  proof
    assume r: "run_cells (drop 5 (notebook L)) s = Inr ns"
    have "s\<lparr>test_data := test_data s, test_targets := test_targets s\<rparr> = s"
      by simp
    with eq[where s = s and td = "test_data s" and tt = "test_targets s"] r
    have "ns = ns\<lparr>test_data := test_data s, test_targets := test_targets s\<rparr>"
      by simp
    then have "test_data ns = test_data s" "test_targets ns = test_targets s"
      by (metis namespace.select_convs(5) namespace.surjective namespace.update_convs(5) namespace.update_convs(7),
          metis namespace.select_convs(7) namespace.surjective namespace.update_convs(7))
    then show "test_data ns = test_data s \<and> test_targets ns = test_targets s"
      by simp
  qed
qed

theorem test_split_never_read_or_modified_witness:
  "run_cells (drop 5 (notebook sample_library)) sample_after_split = Inr sample_final
   \<and> test_data sample_final = test_data sample_after_split
   \<and> test_targets sample_final = test_targets sample_after_split
   \<and> run_cells (drop 5 (notebook sample_library))
        (sample_after_split\<lparr>test_data := None, test_targets := None\<rparr>)
       = Inr (sample_final\<lparr>test_data := None, test_targets := None\<rparr>)"
  using test_split_never_read_or_modified[where L = sample_library
      and s = sample_after_split and td = None and tt = None and ns = sample_final] sample_rest
  by simp

subsection \<open>Exceptions\<close>
















subsection \<open>The partitions of the data\<close>

lemma holdout_index:
  assumes "0 < n"
  shows "nat \<lfloor>real n * (1 - 15 / 100)\<rfloor> < n"
proof -
  have "real n * (1 - 15 / 100) < real n"
    using assms by simp
  then have "\<lfloor>real n * (1 - 15 / 100)\<rfloor> < int n"
    by linarith
  then show ?thesis
    using assms by linarith
qed

lemma validation_holdout_parts:
  "validation_holdout x y v =
     ((x\<lparr>rows := take (nat \<lfloor>real (length (rows x)) * (1 - v)\<rfloor>) (rows x)\<rparr>,
       take (nat \<lfloor>real (length (rows x)) * (1 - v)\<rfloor>) y),
      (x\<lparr>rows := drop (nat \<lfloor>real (length (rows x)) * (1 - v)\<rfloor>) (rows x)\<rparr>,
       drop (nat \<lfloor>real (length (rows x)) * (1 - v)\<rfloor>) y))"
  by (simp add: validation_holdout_def Let_def)

lemma other_cells_keep_split:
  assumes "i < length (notebook L)" and "i \<noteq> 4" and "(notebook L ! i) s = Inr s'"
  shows "train_data s' = train_data s \<and> test_data s' = test_data s
     \<and> train_targets s' = train_targets s \<and> test_targets s' = test_targets s"
proof -
  from assms(1,2) consider "i = 0" | "i = 1" | "i = 2" | "i = 3" | "i = 5" | "i = 6"
    | "i = 7" | "i = 8" | "i = 9" | "i = 10" | "i = 11" | "i = 12"
    unfolding length_notebook by atomize_elim presburger
  then show ?thesis
  proof cases
    case 1
    with assms(3) show ?thesis
      by (auto simp: notebook_def cell_import_tensorflow_def bind_eq_Inr)
  next
    case 2
    with assms(3) show ?thesis
      by (auto simp: notebook_def cell_load_dataset_def bind_eq_Inr)
  next
    case 3
    with assms(3) show ?thesis
      by (auto simp: notebook_def cell_save_variables_def bind_eq_Inr)
  next
    case 4
    with assms(3) show ?thesis
      by (auto simp: notebook_def cell_normalise_targets_def bind_eq_Inr)
  next
    case 5
    with assms(3) show ?thesis
      by (auto simp: notebook_def cell_import_keras_def bind_eq_Inr)
  next
    case 6
    with assms(3) show ?thesis
      by (auto simp: notebook_def cell_build_model_def bind_eq_Inr)
  next
    case 7
    with assms(3) show ?thesis
      by (auto simp: notebook_def cell_model_summary_def bind_eq_Inr)
  next
    case 8
    with assms(3) show ?thesis
      by (auto simp: notebook_def cell_add_batchnorm_def bind_eq_Inr)
  next
    case 9
    with assms(3) show ?thesis
      by (auto simp: notebook_def cell_add_output_def bind_eq_Inr)
  next
    case 10
    with assms(3) show ?thesis
      by (auto simp: notebook_def cell_compile_def bind_eq_Inr)
  next
    case 11
    with assms(3) show ?thesis
      by (auto simp: notebook_def cell_fit_def bind_eq_Inr)
  next
    case 12
    with assms(3) have "cell_plot L s = Inr s'"
      by (simp add: notebook_def)
    from cell_plot_InrD[OF this] show ?thesis
      by auto
  qed
qed

text \<open>
  C2, as the code has it. The data is partitioned twice. Cell 5 is the only cell that
  assigns the train and test variables: its one call of \<open>train_test_split\<close> separates the
  rows into a training and a test set that are disjoint and together are all rows. And
  \<open>model.fit\<close>, called with \<open>validation_split=0.15\<close>, sets the last training rows, from
  index \<open>floor(0.85 * n_train)\<close> on and at least one row, apart as validation data and
  hands the training loop the rows before that index.
\<close>

theorem data_is_partitioned_twice:
  assumes "load_diabetes L = Inr ds"
    and "n = length (rows (bunch_data ds))"
    and "is_permutation (permutation L n) n"
    and "run_all L = Inr ns"
  shows "(\<exists>n_train n_test tr te td tt h k.
       validate_shuffle_split n (1 / 10) = Inr (n_train, n_test)
     \<and> shuffle_split L n n_test n_train = (tr, te)
     \<and> distinct tr \<and> distinct te \<and> set tr \<inter> set te = {} \<and> set tr \<union> set te = {0..<n}
     \<and> td = take_rows (bunch_data ds) tr
     \<and> train_data ns = Some td \<and> test_data ns = Some (take_rows (bunch_data ds) te)
     \<and> train_targets ns = Some tt
     \<and> length (rows td) = n_train \<and> length tt = n_train
     \<and> k = nat \<lfloor>real n_train * (1 - 15 / 100)\<rfloor> \<and> k < n_train
     \<and> validation_holdout td tt (15 / 100)
          = ((td\<lparr>rows := take k (rows td)\<rparr>, take k tt),
             (td\<lparr>rows := drop k (rows td)\<rparr>, drop k tt))
     \<and> history ns = Some h
     \<and> training_loop L (built_model td) (td\<lparr>rows := take k (rows td)\<rparr>, take k tt)
          (td\<lparr>rows := drop k (rows td)\<rparr>, drop k tt) 100 64 = Inr h)
   \<and> notebook L ! 4 = cell_split L
   \<and> (\<forall>i s s'. i < length (notebook L) \<and> i \<noteq> 4 \<and> (notebook L ! i) s = Inr s'
        \<longrightarrow> train_data s' = train_data s \<and> test_data s' = test_data s
          \<and> train_targets s' = train_targets s \<and> test_targets s' = test_targets s)"
proof -
  let ?X = "bunch_data ds"
  from run_all_InrD[OF assms(4)] assms(1) obtain zs a b c d h where
    sp: "train_test_split L ?X zs (1 / 10) = Inr (a, b, c, d)"
    and ft: "fit L (built_model a) a c 100 (15 / 100) 64 = Inr h"
    and ns: "train_data ns = Some a" "test_data ns = Some b" "train_targets ns = Some c"
      "history ns = Some h"
    by auto
  from train_test_split_InrD[OF sp] assms(2) obtain n_train n_test tr te where
    v: "validate_shuffle_split n (1 / 10) = Inr (n_train, n_test)"
    and st: "shuffle_split L n n_test n_train = (tr, te)"
    and parts: "a = take_rows ?X tr" "b = take_rows ?X te" "c = take_idx zs tr"
    by auto
  from validate_shuffle_split_InrD[OF v] have sizes: "n_train + n_test = n" "0 < n_train"
    by simp_all
  note part = shuffle_split_partition[OF assms(3) sizes(1) st]
  have len: "length (rows a) = n_train" "length c = n_train"
    using part parts by (simp_all add: take_rows_def take_idx_def)
  define k where "k = nat \<lfloor>real n_train * (1 - 15 / 100)\<rfloor>"
  have k: "k < n_train"
    unfolding k_def using sizes(2) by (rule holdout_index)
  have ho: "validation_holdout a c (15 / 100)
      = ((a\<lparr>rows := take k (rows a)\<rparr>, take k c), (a\<lparr>rows := drop k (rows a)\<rparr>, drop k c))"
    unfolding validation_holdout_parts len k_def by simp
  have tl: "training_loop L (built_model a) (a\<lparr>rows := take k (rows a)\<rparr>, take k c)
          (a\<lparr>rows := drop k (rows a)\<rparr>, drop k c) 100 64 = Inr h"
    using ft unfolding fit_def ho by simp
  have "\<exists>n_train n_test tr te td tt h k.
       validate_shuffle_split n (1 / 10) = Inr (n_train, n_test)
     \<and> shuffle_split L n n_test n_train = (tr, te)
     \<and> distinct tr \<and> distinct te \<and> set tr \<inter> set te = {} \<and> set tr \<union> set te = {0..<n}
     \<and> td = take_rows (bunch_data ds) tr
     \<and> train_data ns = Some td \<and> test_data ns = Some (take_rows (bunch_data ds) te)
     \<and> train_targets ns = Some tt
     \<and> length (rows td) = n_train \<and> length tt = n_train
     \<and> k = nat \<lfloor>real n_train * (1 - 15 / 100)\<rfloor> \<and> k < n_train
     \<and> validation_holdout td tt (15 / 100)
          = ((td\<lparr>rows := take k (rows td)\<rparr>, take k tt),
             (td\<lparr>rows := drop k (rows td)\<rparr>, drop k tt))
     \<and> history ns = Some h
     \<and> training_loop L (built_model td) (td\<lparr>rows := take k (rows td)\<rparr>, take k tt)
          (td\<lparr>rows := drop k (rows td)\<rparr>, drop k tt) 100 64 = Inr h"
    using v st part parts(1,2) ns len k k_def ho tl
    by (intro exI[of _ n_train] exI[of _ n_test] exI[of _ tr] exI[of _ te] exI[of _ a]
        exI[of _ c] exI[of _ h] exI[of _ k]) simp
  moreover have "notebook L ! 4 = cell_split L"
    by (simp add: notebook_def)
  ultimately show ?thesis
    using other_cells_keep_split[of _ L] by blast
qed

lemma sample_validate: "validate_shuffle_split 4 (1 / 10) = Inr (3, 1)"
  by (simp add: validate_shuffle_split_def)

lemma sample_shuffle: "shuffle_split sample_library 4 1 3 = ([2, 1, 0], [3])"
  by (simp add: shuffle_split_def upt_rec)

lemma sample_holdout:
  "validation_holdout \<lparr>ncols = 10, rows = [r2, r1, r0]\<rparr> [z2, z1, z0] (15 / 100)
     = ((\<lparr>ncols = 10, rows = [r2, r1]\<rparr>, [z2, z1]), (\<lparr>ncols = 10, rows = [r0]\<rparr>, [z0]))"
proof -
  have "\<lfloor>(51::real) / 20\<rfloor> = 2"
    by linarith
  then show ?thesis
    by (simp add: validation_holdout_def)
qed

theorem data_is_partitioned_twice_witness:
  "load_diabetes sample_library = Inr sample_dataset
   \<and> 4 = length (rows (bunch_data sample_dataset))
   \<and> is_permutation (permutation sample_library 4) 4
   \<and> run_all sample_library = Inr sample_final
   \<and> validate_shuffle_split 4 (1 / 10) = Inr (3, 1)
   \<and> shuffle_split sample_library 4 1 3 = ([2, 1, 0], [3])
   \<and> train_data sample_final
       = Some (take_rows (bunch_data sample_dataset) [2, 1, 0])
   \<and> test_data sample_final = Some (take_rows (bunch_data sample_dataset) [3])
   \<and> train_targets sample_final = Some [- 1, 1, - 1]
   \<and> validation_holdout (take_rows (bunch_data sample_dataset) [2, 1, 0]) [- 1, 1, - 1]
        (15 / 100)
       = ((\<lparr>ncols = 10, rows = [replicate 10 3, replicate 10 2]\<rparr>, [- 1, 1]),
          (\<lparr>ncols = 10, rows = [replicate 10 1]\<rparr>, [- 1]))
   \<and> notebook sample_library ! 4 = cell_split sample_library"
proof -
  have h1: "load_diabetes sample_library = Inr sample_dataset"
    by simp
  have h2: "4 = length (rows (bunch_data sample_dataset))"
    by (simp add: sample_dataset_def)
  have rows: "take_rows (bunch_data sample_dataset) [2, 1, 0]
      = \<lparr>ncols = 10, rows = [replicate 10 3, replicate 10 2, replicate 10 1]\<rparr>"
    "take_rows (bunch_data sample_dataset) [3] = \<lparr>ncols = 10, rows = [replicate 10 4]\<rparr>"
    by (simp_all add: sample_dataset_def take_rows_def take_idx_def)
  have c1: "train_data sample_final
       = Some (take_rows (bunch_data sample_dataset) [2, 1, 0])"
    and c2: "test_data sample_final = Some (take_rows (bunch_data sample_dataset) [3])"
    and c3: "train_targets sample_final = Some [- 1, 1, - 1]"
    unfolding rows by (simp_all add: sample_final_def sample_after_split_def)
  have c4: "validation_holdout (take_rows (bunch_data sample_dataset) [2, 1, 0]) [- 1, 1, - 1]
        (15 / 100)
       = ((\<lparr>ncols = 10, rows = [replicate 10 3, replicate 10 2]\<rparr>, [- 1, 1]),
          (\<lparr>ncols = 10, rows = [replicate 10 1]\<rparr>, [- 1]))"
    unfolding rows by (rule sample_holdout)
  from data_is_partitioned_twice[OF h1 h2 sample_is_permutation sample_run]
  have c5: "notebook sample_library ! 4 = cell_split sample_library"
    by blast
  from data_is_partitioned_twice[OF h1 h2 sample_is_permutation sample_run]
    h1 h2 sample_is_permutation sample_run sample_validate sample_shuffle c1 c2 c3 c4 c5
  show ?thesis
    by blast
qed

text \<open>
  C2 as stated says that nothing but \<open>train_test_split\<close> partitions the data. In the
  sample run the three training rows that the split returns are partitioned once more
  by \<open>model.fit\<close>: two rows to train on and one row held out for validation, so the
  training loop does not receive the whole training set.
\<close>

theorem single_split_counterexample:
  "run_all sample_library = Inr sample_final
   \<and> train_data sample_final
       = Some \<lparr>ncols = 10, rows = [replicate 10 3, replicate 10 2, replicate 10 1]\<rparr>
   \<and> train_targets sample_final = Some [- 1, 1, - 1]
   \<and> validation_holdout \<lparr>ncols = 10, rows = [replicate 10 3, replicate 10 2, replicate 10 1]\<rparr>
        [- 1, 1, - 1] (15 / 100)
       = ((\<lparr>ncols = 10, rows = [replicate 10 3, replicate 10 2]\<rparr>, [- 1, 1]),
          (\<lparr>ncols = 10, rows = [replicate 10 1]\<rparr>, [- 1]))
    \<and> fst (validation_holdout
          \<lparr>ncols = 10, rows = [replicate 10 3, replicate 10 2, replicate 10 1]\<rparr>
          [- 1, 1, - 1] (15 / 100))
       \<noteq> (\<lparr>ncols = 10, rows = [replicate 10 3, replicate 10 2, replicate 10 1]\<rparr>,
           [- 1, 1, - 1])"
proof -
  have "train_data sample_final
       = Some \<lparr>ncols = 10, rows = [replicate 10 3, replicate 10 2, replicate 10 1]\<rparr>"
    and "train_targets sample_final = Some [- 1, 1, - 1]"
    by (simp_all add: sample_final_def sample_after_split_def)
  moreover have "fst (validation_holdout
          \<lparr>ncols = 10, rows = [replicate 10 3, replicate 10 2, replicate 10 1]\<rparr>
          [- 1, 1, - 1] (15 / 100))
       \<noteq> (\<lparr>ncols = 10, rows = [replicate 10 3, replicate 10 2, replicate 10 1]\<rparr>,
           [- 1, 1, - 1])"
    unfolding sample_holdout by simp
  ultimately show ?thesis
    using sample_run sample_holdout by blast
qed

subsection \<open>Training targets and test targets\<close>














end
